theory Spec2Isabelle
  imports Main "HOL-Library.AList"
begin

section \<open>PostgreSQL subclient of cvpysdk (\<^verbatim>\<open>cvpysdk/subclients/postgressubclient.py\<close>)\<close>

text \<open>
  The class \<^verbatim>\<open>PostgresSubclient\<close> shapes data and delegates: it reads a property
  mapping that mirrors a server payload, builds one request document, and hands work to
  its base class, to the transport object and to the owning instance object. The
  embedding follows the Python text method by method. Python values that come from the
  server are JSON values; every place where the Python can raise is a branch of the
  model returning \<open>Inl\<close>; calls to objects outside the class are recorded, in order,
  in a list of calls that each method returns next to its result.
\<close>

subsection \<open>Python values and the operations the class uses on them\<close>

text \<open>
  A decoded JSON value. A mapping is an association list whose keys are strings, as in
  JSON; a key is looked up with \<open>map_of\<close>, which takes the first pair that has it.
  \<open>JNull\<close> is Python's \<^verbatim>\<open>None\<close>. Numbers are integers here; no method of the class
  computes with a number, only its truth value is read.
\<close>

datatype json =
    JNull
  | JBool bool
  | JInt int
  | JStr string
  | JList "json list"
  | JDict "(string \<times> json) list"

datatype py_error =
    AttributeError
  | KeyError
  | IndexError
  | TypeError
  | SDKException string string

text \<open>Truth value of a Python object, as \<^verbatim>\<open>if x:\<close> reads it.\<close>

fun truthy :: "json \<Rightarrow> bool" where
  "truthy JNull = False"
| "truthy (JBool b) = b"
| "truthy (JInt n) = (n \<noteq> 0)"
| "truthy (JStr s) = (s \<noteq> [])"
| "truthy (JList xs) = (xs \<noteq> [])"
| "truthy (JDict kvs) = (kvs \<noteq> [])"

text \<open>\<^verbatim>\<open>x.get(k)\<close>: only a mapping has the method; a missing key gives \<^verbatim>\<open>None\<close>.\<close>

fun py_get :: "json \<Rightarrow> string \<Rightarrow> py_error + json" where
  "py_get (JDict kvs) k = (case map_of kvs k of None \<Rightarrow> Inr JNull | Some v \<Rightarrow> Inr v)"
| "py_get _ k = Inl AttributeError"

text \<open>\<^verbatim>\<open>x[k]\<close> with a string key.\<close>

fun py_getitem :: "json \<Rightarrow> string \<Rightarrow> py_error + json" where
  "py_getitem (JDict kvs) k = (case map_of kvs k of None \<Rightarrow> Inl KeyError | Some v \<Rightarrow> Inr v)"
| "py_getitem _ k = Inl TypeError"

text \<open>\<^verbatim>\<open>x[0]\<close>. The keys of a mapping are strings, so \<open>0\<close> is never among them.\<close>

fun py_getitem0 :: "json \<Rightarrow> py_error + json" where
  "py_getitem0 (JList []) = Inl IndexError"
| "py_getitem0 (JList (x # xs)) = Inr x"
| "py_getitem0 (JStr []) = Inl IndexError"
| "py_getitem0 (JStr (c # cs)) = Inr (JStr [c])"
| "py_getitem0 (JDict kvs) = Inl KeyError"
| "py_getitem0 _ = Inl TypeError"

text \<open>The sequence a \<^verbatim>\<open>for\<close> loop runs over.\<close>

fun py_iter :: "json \<Rightarrow> py_error + json list" where
  "py_iter (JList xs) = Inr xs"
| "py_iter (JDict kvs) = Inr (map (\<lambda>kv. JStr (fst kv)) kvs)"
| "py_iter (JStr s) = Inr (map (\<lambda>c. JStr [c]) s)"
| "py_iter _ = Inl TypeError"

text \<open>\<^verbatim>\<open>s.lstrip(chars)\<close> on a string; other JSON values have no such method.\<close>

definition lstrip :: "string \<Rightarrow> string \<Rightarrow> string" where
  "lstrip chars s = dropWhile (\<lambda>c. c \<in> set chars) s"

fun py_lstrip :: "json \<Rightarrow> string \<Rightarrow> py_error + string" where
  "py_lstrip (JStr s) chars = Inr (lstrip chars s)"
| "py_lstrip _ chars = Inl AttributeError"

text \<open>
  \<^verbatim>\<open>s.lower()\<close>. A string is its UTF-8 bytes. The letters \<open>A\<close> to \<open>Z\<close> become
  \<open>a\<close> to \<open>z\<close>, and the three bytes \<open>E2 84 AA\<close> of the Kelvin sign (U+212A), the one
  character outside ASCII that Python lowers to an ASCII letter, become \<open>k\<close>. Every
  other byte is kept: Python lowers the other letters outside ASCII to characters that
  are outside ASCII again, so whether the result equals a given ASCII string, which is
  all the class asks of it, is decided here as in Python.
\<close>

definition lower_char :: "char \<Rightarrow> char" where
  "lower_char c =
     (let n = (of_char c :: nat) in if 65 \<le> n \<and> n \<le> 90 then char_of (n + 32) else c)"

fun lower :: "string \<Rightarrow> string" where
  "lower (a # b # c # rest) =
     (if a = CHR 0xE2 \<and> b = CHR 0x84 \<and> c = CHR 0xAA then CHR ''k'' # lower rest
      else lower_char a # lower (b # c # rest))"
| "lower (a # rest) = lower_char a # lower rest"
| "lower [] = []"

declare lower.simps [simp del]

text \<open>\<^verbatim>\<open>str(x)\<close> for an argument that is a string or \<^verbatim>\<open>None\<close>.\<close>

fun py_str :: "string option \<Rightarrow> string" where
  "py_str None = ''None''"
| "py_str (Some s) = s"

text \<open>
  \<^verbatim>\<open>d[k] = v\<close> and \<^verbatim>\<open>d.update(other)\<close> on association lists: a key already
  there keeps its place, a new key goes to the end.
\<close>

definition dict_set :: "(string \<times> json) list \<Rightarrow> string \<Rightarrow> json \<Rightarrow> (string \<times> json) list" where
  "dict_set d k v = AList.update k v d"

definition dict_update :: "(string \<times> json) list \<Rightarrow> (string \<times> json) list \<Rightarrow> (string \<times> json) list" where
  "dict_update d other = fold (\<lambda>kv. AList.update (fst kv) (snd kv)) other d"

fun py_update :: "json \<Rightarrow> (string \<times> json) list \<Rightarrow> py_error + json" where
  "py_update (JDict d) other = Inr (JDict (dict_update d other))"
| "py_update _ other = Inl AttributeError"

text \<open>
  A chain of subscripts such as \<^verbatim>\<open>doc["a"]["b"][0]\<close>, followed by a call that
  mutates the object found there: \<open>update_at\<close> returns the document with that object
  replaced. A subscript that fails raises before the call is made.
\<close>

datatype step = Key string | Index0

fun update_at :: "step list \<Rightarrow> (json \<Rightarrow> py_error + json) \<Rightarrow> json \<Rightarrow> py_error + json" where
  "update_at [] f j = f j"
| "update_at (Key k # p) f j =
     (case py_getitem j k of
        Inl e \<Rightarrow> Inl e
      | Inr v \<Rightarrow>
          (case update_at p f v of
             Inl e \<Rightarrow> Inl e
           | Inr v' \<Rightarrow>
               (case j of JDict kvs \<Rightarrow> Inr (JDict (dict_set kvs k v')) | _ \<Rightarrow> Inl TypeError)))"
| "update_at (Index0 # p) f j =
     (case py_getitem0 j of
        Inl e \<Rightarrow> Inl e
      | Inr v \<Rightarrow>
          (case update_at p f v of
             Inl e \<Rightarrow> Inl e
           | Inr v' \<Rightarrow>
               (case j of JList (x # xs) \<Rightarrow> Inr (JList (v' # xs)) | _ \<Rightarrow> Inr j)))"

subsection \<open>The objects\<close>

text \<open>
  The ownership chain a subclient reaches through \<^verbatim>\<open>self._backupset_object\<close>:
  backupset, instance, agent, client. Only the attributes the class reads or writes
  are fields.
\<close>

record client_obj =
  client_name :: string

record agent_obj =
  client_object :: client_obj

record instance_obj =
  agent_object :: agent_obj
  instance_name :: string
  restore_association :: json

record backupset_obj =
  instance_object :: instance_obj
  backupset_name :: string

text \<open>
  The subclient. \<open>is_default_subclient\<close> is a property of the base class, read only.
  \<open>self_content\<close> is \<^verbatim>\<open>self._content\<close>, and so on for the other attributes.
\<close>

record subclient =
  backupset_object :: backupset_obj
  is_default_subclient :: bool
  self_subclient_properties :: "(string \<times> json) list"
  self_content :: json
  self_postgres_properties :: json
  self_subClientEntity :: json

subsection \<open>The \<^verbatim>\<open>content\<close> property\<close>

text \<open>
  The body of the \<^verbatim>\<open>for\<close> loop, over the entries still to visit, with
  \<open>database_list\<close> as built so far.
\<close>

fun content_loop :: "json list \<Rightarrow> string list \<Rightarrow> py_error + string list" where
  "content_loop [] database_list = Inr database_list"
| "content_loop (database # rest) database_list =
     (case py_get database ''postgreSQLContent'' of
        Inl e \<Rightarrow> Inl e
      | Inr c \<Rightarrow>
          if truthy c then
            (case py_getitem database ''postgreSQLContent'' of
               Inl e \<Rightarrow> Inl e
             | Inr pc \<Rightarrow>
                 (case py_get pc ''databaseName'' of
                    Inl e \<Rightarrow> Inl e
                  | Inr n \<Rightarrow>
                      if truthy n then
                        (case py_getitem database ''postgreSQLContent'' of
                           Inl e \<Rightarrow> Inl e
                         | Inr pc' \<Rightarrow>
                             (case py_getitem pc' ''databaseName'' of
                                Inl e \<Rightarrow> Inl e
                              | Inr name \<Rightarrow>
                                  (case py_lstrip name ''/'' of
                                     Inl e \<Rightarrow> Inl e
                                   | Inr stripped \<Rightarrow>
                                       content_loop rest (database_list @ [stripped]))))
                      else content_loop rest database_list))
          else content_loop rest database_list)"

text \<open>
  The property: it resets \<^verbatim>\<open>self._content\<close>, reloads it from the raw properties
  unless the subclient is the default one, and returns the names, or \<^verbatim>\<open>None\<close>
  (here \<open>None\<close>) when \<^verbatim>\<open>self._content\<close> stayed \<^verbatim>\<open>None\<close>. The result is the
  subclient as the property leaves it, and the value returned.
\<close>

definition content :: "subclient \<Rightarrow> py_error + (subclient \<times> string list option)" where
  "content self =
     (let self1 = self\<lparr>self_content := JNull\<rparr>;
          self2 =
            (if \<not> is_default_subclient self1 then
               (case map_of (self_subclient_properties self1) ''content'' of
                  Some c \<Rightarrow> self1\<lparr>self_content := c\<rparr>
                | None \<Rightarrow> self1)
             else self1)
      in if self_content self2 \<noteq> JNull then
           (case py_iter (self_content self2) of
              Inl e \<Rightarrow> Inl e
            | Inr entries \<Rightarrow>
                (case content_loop entries [] of
                   Inl e \<Rightarrow> Inl e
                 | Inr database_list \<Rightarrow> Inr (self2, Some database_list)))
         else Inr (self2, None))"

subsection \<open>Refreshing the properties\<close>

text \<open>
  \<^verbatim>\<open>_get_subclient_properties\<close>. The method of the base class, which fetches the
  payload from the server and stores it in \<^verbatim>\<open>self._subclient_properties\<close>, is the
  parameter \<open>super_get_subclient_properties\<close>; it may raise.
\<close>

definition get_subclient_properties ::
  "(subclient \<Rightarrow> py_error + subclient) \<Rightarrow> subclient \<Rightarrow> py_error + subclient" where
  "get_subclient_properties super_get_subclient_properties self =
     (case super_get_subclient_properties self of
        Inl e \<Rightarrow> Inl e
      | Inr self1 \<Rightarrow>
          (let self2 =
                 (if map_of (self_subclient_properties self1) ''postgreSQLSubclientProp'' = None
                  then self1\<lparr>self_subclient_properties :=
                         dict_set (self_subclient_properties self1) ''postgreSQLSubclientProp'' (JDict [])\<rparr>
                  else self1)
           in case py_getitem (JDict (self_subclient_properties self2)) ''postgreSQLSubclientProp'' of
                Inl e \<Rightarrow> Inl e
              | Inr v \<Rightarrow> Inr (self2\<lparr>self_postgres_properties := v\<rparr>)))"

subsection \<open>Backup\<close>

text \<open>
  What \<^verbatim>\<open>backup\<close> calls outside this class: \<^verbatim>\<open>backup\<close> and \<^verbatim>\<open>_backup_json\<close> and
  \<^verbatim>\<open>_process_backup_response\<close> of the base class, \<^verbatim>\<open>make_request\<close> of the
  transport object, and the \<^verbatim>\<open>CREATE_TASK\<close> entry of the services table. Each is a
  parameter; each call is also recorded, with its arguments, in the list of calls.
\<close>

record ('job, 'resp) collaborators =
  super_backup :: "string \<Rightarrow> py_error + 'job"
  backup_json :: "string \<Rightarrow> bool \<Rightarrow> string \<Rightarrow> py_error + json"
  make_request :: "string \<Rightarrow> string \<Rightarrow> json \<Rightarrow> py_error + (bool \<times> 'resp)"
  process_backup_response :: "bool \<Rightarrow> 'resp \<Rightarrow> py_error + 'job"
  services_CREATE_TASK :: string

datatype 'resp call =
    Super_backup string
  | Backup_json string bool string
  | Make_request string string json
  | Process_backup_response bool 'resp

definition hana_options :: "string option \<Rightarrow> (string \<times> json) list" where
  "hana_options backup_prefix =
     [(''hanaOptions'', JDict [(''backupPrefix'', JStr (py_str backup_prefix))])]"

text \<open>\<^verbatim>\<open>_backup_request_json\<close>: the calls made, and the document or the error.\<close>

definition backup_request_json ::
  "('job, 'resp) collaborators \<Rightarrow> string \<Rightarrow> string option \<Rightarrow> 'resp call list \<times> (py_error + json)" where
  "backup_request_json env backup_level backup_prefix =
     ([Backup_json backup_level False ''BEFORE_SYNTH''],
      (case backup_json env backup_level False ''BEFORE_SYNTH'' of
         Inl e \<Rightarrow> Inl e
       | Inr request_json \<Rightarrow>
           update_at [Key ''taskInfo'', Key ''subTasks'', Index0, Key ''options'', Key ''backupOpts'']
             (\<lambda>backupOpts. py_update backupOpts (hana_options backup_prefix)) request_json))"

text \<open>\<^verbatim>\<open>backup\<close>: the calls made, in order, and the job or the error.\<close>

definition backup ::
  "('job, 'resp) collaborators \<Rightarrow> string \<Rightarrow> string option \<Rightarrow> 'resp call list \<times> (py_error + 'job)" where
  "backup env backup_level backup_prefix =
     (let level = lower backup_level
      in if level \<notin> set [''full'', ''incremental'', ''differential''] then
           ([], Inl (SDKException ''Subclient'' ''103''))
         else
           (case backup_prefix of
              None \<Rightarrow> ([Super_backup level], super_backup env level)
            | Some prefix \<Rightarrow>
                (case backup_request_json env level (Some prefix) of
                   (calls, Inl e) \<Rightarrow> (calls, Inl e)
                 | (calls, Inr request_json) \<Rightarrow>
                     (case make_request env ''POST'' (services_CREATE_TASK env) request_json of
                        Inl e \<Rightarrow>
                          (calls @ [Make_request ''POST'' (services_CREATE_TASK env) request_json],
                           Inl e)
                      | Inr (flag, response) \<Rightarrow>
                          (calls @ [Make_request ''POST'' (services_CREATE_TASK env) request_json,
                                    Process_backup_response flag response],
                           process_backup_response env flag response)))))"

subsection \<open>Restore\<close>

text \<open>The arguments \<^verbatim>\<open>restore_in_place\<close> of the instance object receives.\<close>

record restore_args =
  arg_database_list :: "string list option"
  arg_dest_client_name :: string
  arg_dest_instance_name :: string
  arg_backupset_name :: string
  arg_backupset_flag :: bool
  arg_copy_precedence :: "int option"
  arg_from_time :: "string option"
  arg_to_time :: "string option"
  arg_clone_env :: bool
  arg_clone_options :: json

text \<open>
  A call of \<^verbatim>\<open>restore_in_place\<close>: the instance object as it is when the call is
  made, and the arguments.
\<close>

datatype restore_call = Restore_in_place instance_obj restore_args

text \<open>
  \<^verbatim>\<open>restore_postgres_server\<close>. \<open>restore_in_place\<close> is the method of the instance
  object, a parameter. The result is the subclient afterwards (its instance object
  carries the new \<^verbatim>\<open>_restore_association\<close>), the calls made, and what
  \<^verbatim>\<open>restore_in_place\<close> returned.
\<close>

definition restore_postgres_server ::
  "(instance_obj \<Rightarrow> restore_args \<Rightarrow> 'job) \<Rightarrow> subclient \<Rightarrow>
     string list option \<Rightarrow> string option \<Rightarrow> string option \<Rightarrow> int option \<Rightarrow>
     string option \<Rightarrow> string option \<Rightarrow> bool \<Rightarrow> json \<Rightarrow>
     subclient \<times> restore_call list \<times> 'job" where
  "restore_postgres_server restore_in_place self database_list dest_client_name
       dest_instance_name copy_precedence from_time to_time clone_env clone_options =
     (let backup_set_object = backupset_object self;
          instance = instance_object backup_set_object;
          dest_client =
            (case dest_client_name of
               None \<Rightarrow> client_name (client_object (agent_object instance))
             | Some n \<Rightarrow> n);
          dest_instance =
            (case dest_instance_name of None \<Rightarrow> instance_name instance | Some n \<Rightarrow> n);
          bs_name = backupset_name backup_set_object;
          fs_based = (lower bs_name = ''fsbasedbackupset'');
          backupset_flag = (if fs_based then True else False);
          databases = (if fs_based then Some [''/data''] else database_list);
          instance' = instance\<lparr>restore_association := self_subClientEntity self\<rparr>;
          args = \<lparr>arg_database_list = databases,
                   arg_dest_client_name = dest_client,
                   arg_dest_instance_name = dest_instance,
                   arg_backupset_name = bs_name,
                   arg_backupset_flag = backupset_flag,
                   arg_copy_precedence = copy_precedence,
                   arg_from_time = from_time,
                   arg_to_time = to_time,
                   arg_clone_env = clone_env,
                   arg_clone_options = clone_options\<rparr>
      in (self\<lparr>backupset_object := backup_set_object\<lparr>instance_object := instance'\<rparr>\<rparr>,
          [Restore_in_place instance' args],
          restore_in_place instance' args))"

subsection \<open>Entries of the raw content\<close>

text \<open>
  The database name of a well-formed entry: the entry is a mapping, its
  \<^verbatim>\<open>postgreSQLContent\<close> is a mapping, and \<^verbatim>\<open>databaseName\<close> there is a non-empty
  string. Any other entry has none.
\<close>

fun entry_name :: "json \<Rightarrow> string option" where
  "entry_name (JDict kvs) =
     (case map_of kvs ''postgreSQLContent'' of
        Some (JDict kvs') \<Rightarrow>
          (case map_of kvs' ''databaseName'' of
             Some (JStr n) \<Rightarrow> if n \<noteq> [] then Some n else None
           | _ \<Rightarrow> None)
      | _ \<Rightarrow> None)"
| "entry_name _ = None"

definition well_formed :: "json \<Rightarrow> bool" where
  "well_formed e = (entry_name e \<noteq> None)"

text \<open>
  A malformed entry: a mapping that has no \<^verbatim>\<open>postgreSQLContent\<close> key, or has an
  empty value there (\<^verbatim>\<open>None\<close>, an empty mapping, any value Python counts as false),
  or has a mapping there whose \<^verbatim>\<open>databaseName\<close> is missing or empty in the same
  sense.
\<close>

fun malformed :: "json \<Rightarrow> bool" where
  "malformed (JDict kvs) =
     (case map_of kvs ''postgreSQLContent'' of
        None \<Rightarrow> True
      | Some (JDict kvs') \<Rightarrow>
          (case map_of kvs' ''databaseName'' of
             None \<Rightarrow> True
           | Some n \<Rightarrow> \<not> truthy n)
      | Some c \<Rightarrow> \<not> truthy c)"
| "malformed _ = False"

subsection \<open>Example objects\<close>

text \<open>Concrete objects on which the theorems below are run.\<close>

definition example_client :: client_obj where
  "example_client = \<lparr>client_name = ''client1''\<rparr>"

definition example_instance :: instance_obj where
  "example_instance =
     \<lparr>agent_object = \<lparr>client_object = example_client\<rparr>,
      instance_name = ''pg1'',
      restore_association = JNull\<rparr>"

definition example_entries :: "json list" where
  "example_entries =
     [JDict [(''postgreSQLContent'', JDict [(''databaseName'', JStr ''/db1'')])],
      JDict [(''postgreSQLContent'', JDict [(''databaseName'', JStr ''//db2'')])],
      JDict [(''postgreSQLContent'', JDict [(''databaseName'', JStr ''db3'')])]]"


definition example_subclient :: "bool \<Rightarrow> (string \<times> json) list \<Rightarrow> subclient" where
  "example_subclient is_default properties =
     \<lparr>backupset_object = \<lparr>instance_object = example_instance, backupset_name = ''defaultDumpBackupSet''\<rparr>,
      is_default_subclient = is_default,
      self_subclient_properties = properties,
      self_content = JNull,
      self_postgres_properties = JDict [],
      self_subClientEntity = JDict [(''subclientName'', JStr ''sc1'')]\<rparr>"

text \<open>The same subclient under a file-system based backupset.\<close>

definition example_fs_subclient :: subclient where
  "example_fs_subclient =
     (example_subclient False [])\<lparr>backupset_object :=
        \<lparr>instance_object = example_instance, backupset_name = ''FSBasedBackupSet''\<rparr>\<rparr>"

text \<open>
  The same again, the backupset name written with the Kelvin sign (U+212A, the bytes
  \<open>E2 84 AA\<close>) in place of the letter \<open>K\<close>.
\<close>

definition example_kelvin_subclient :: subclient where
  "example_kelvin_subclient =
     (example_subclient False [])\<lparr>backupset_object :=
        \<lparr>instance_object = example_instance,
         backupset_name = ''FSBasedBac'' @ [CHR 0xE2, CHR 0x84, CHR 0xAA] @ ''upSet''\<rparr>\<rparr>"

text \<open>Stand-ins for \<^verbatim>\<open>restore_in_place\<close> and for the base class's property fetch.\<close>

definition example_restore_in_place :: "instance_obj \<Rightarrow> restore_args \<Rightarrow> nat" where
  "example_restore_in_place instance args = 7"

definition example_super_get :: "(string \<times> json) list \<Rightarrow> subclient \<Rightarrow> py_error + subclient" where
  "example_super_get payload self = Inr (self\<lparr>self_subclient_properties := payload\<rparr>)"

text \<open>
  An envelope of the shape the base class builds, and collaborators that answer every
  call with a fixed value.
\<close>

definition example_backup_json :: "string \<Rightarrow> bool \<Rightarrow> string \<Rightarrow> json" where
  "example_backup_json backup_level incremental_backup incremental_level =
     JDict [(''taskInfo'',
       JDict [(''associations'', JList [JDict [(''subclientName'', JStr ''sc1'')]]),
              (''subTasks'',
                 JList [JDict [(''subTaskOperation'', JInt 1),
                               (''options'',
                                  JDict [(''backupOpts'',
                                     JDict [(''backupLevel'', JStr backup_level),
                                            (''incLevel'', JStr incremental_level),
                                            (''runIncrementalBackup'', JBool incremental_backup)])])]])])]"

definition example_env :: "(nat, string) collaborators" where
  "example_env =
     \<lparr>super_backup = (\<lambda>level. Inr 1),
      backup_json = (\<lambda>level flag tag. Inr (example_backup_json level flag tag)),
      make_request = (\<lambda>method url body. Inr (True, ''response'')),
      process_backup_response = (\<lambda>flag response. Inr 2),
      services_CREATE_TASK = ''/CreateTask''\<rparr>"

section \<open>Properties\<close>

subsection \<open>The content property\<close>

lemma lstrip_slash: "lstrip ''/'' s = dropWhile (\<lambda>c. c = CHR ''/'') s"
  by (simp add: lstrip_def)

lemma content_loop_well_formed:
  "entry_name e = Some n \<Longrightarrow>
     content_loop (e # rest) acc = content_loop rest (acc @ [lstrip ''/'' n])"
  by (cases e) (auto split: option.splits json.splits if_splits)

lemma content_loop_malformed:
  "malformed e \<Longrightarrow> content_loop (e # rest) acc = content_loop rest acc"
  by (cases e) (auto split: option.splits json.splits if_splits)

lemma content_loop_mixed:
  "\<forall>e \<in> set es. well_formed e \<or> malformed e \<Longrightarrow>
     content_loop es acc =
       Inr (acc @ map (\<lambda>e. lstrip ''/'' (the (entry_name e))) (filter well_formed es))"
proof (induction es arbitrary: acc)
  case Nil
  then show ?case by simp
next
  case (Cons e es)
  show ?case
  proof (cases "entry_name e")
    case None
    with Cons.prems have "malformed e" by (simp add: well_formed_def)
    with None Cons show ?thesis
      by (simp add: content_loop_malformed well_formed_def del: content_loop.simps)
  next
    case (Some n)
    with Cons show ?thesis
      by (simp add: content_loop_well_formed well_formed_def del: content_loop.simps)
  qed
qed

lemma content_loop_grows:
  "content_loop es acc = Inr r \<Longrightarrow>
     length acc + length (filter well_formed es) \<le> length r"
proof (induction es arbitrary: acc)
  case Nil
  then show ?case by simp
next
  case (Cons e es)
  show ?case
  proof (cases "entry_name e")
    case None
    then have nwf: "\<not> well_formed e" by (simp add: well_formed_def)
    from Cons.prems obtain acc' where "content_loop es acc' = Inr r" "length acc \<le> length acc'"
      by (auto split: sum.splits if_splits)
    with Cons.IH[of acc'] nwf show ?thesis by simp
  next
    case (Some n)
    then have wf: "well_formed e" by (simp add: well_formed_def)
    from Cons.prems Some have "content_loop es (acc @ [lstrip ''/'' n]) = Inr r"
      by (simp add: content_loop_well_formed del: content_loop.simps)
    from Cons.IH[OF this] wf show ?thesis by simp
  qed
qed

text \<open>
  Outside these two kinds of entries the loop can raise: an entry that is not a mapping
  has no \<^verbatim>\<open>get\<close>, and neither has a non-empty string under \<^verbatim>\<open>postgreSQLContent\<close>.
\<close>

lemma content_loop_string_entry:
  "content_loop (JStr s # rest) acc = Inl AttributeError"
  by simp

lemma content_loop_string_content:
  "s \<noteq> [] \<Longrightarrow>
     content_loop (JDict [(''postgreSQLContent'', JStr s)] # rest) acc = Inl AttributeError"
  by simp

lemma content_of_list:
  assumes "\<not> is_default_subclient self"
    and "map_of (self_subclient_properties self) ''content'' = Some (JList entries)"
  shows "content self =
           (case content_loop entries [] of
              Inl e \<Rightarrow> Inl e
            | Inr database_list \<Rightarrow>
                Inr (self\<lparr>self_content := JList entries\<rparr>, Some database_list))"
  using assms by (simp add: content_def Let_def split: sum.splits)

lemma content_None:
  "is_default_subclient self \<or> map_of (self_subclient_properties self) ''content'' = None \<Longrightarrow>
     content self = Inr (self\<lparr>self_content := JNull\<rparr>, None)"
  by (auto simp: content_def Let_def)

lemma content_loop_empty_result:
  assumes "py_iter c = Inr entries" and "content_loop entries [] = Inr []"
  shows "(\<forall>e \<in> set entries. \<not> well_formed e) \<and> (c = JList entries \<or> entries = [])"
proof
  from content_loop_grows[OF assms(2)] have "filter well_formed entries = []"
    by simp
  then show "\<forall>e \<in> set entries. \<not> well_formed e"
    by (simp add: filter_empty_conv)
next
  show "c = JList entries \<or> entries = []"
  proof (cases c)
    case (JDict kvs)
    with assms show ?thesis by (cases kvs) auto
  next
    case (JStr s)
    with assms show ?thesis by (cases s) auto
  qed (use assms in auto)
qed

text \<open>
  Claim C2. On a subclient that is not the default one and whose raw \<^verbatim>\<open>content\<close> is a
  list of well-formed entries, \<open>content\<close> returns one name for each entry, in the order
  of the entries, each name being the entry's \<^verbatim>\<open>databaseName\<close> without its leading
  slashes; so \<open>N\<close> entries give exactly \<open>N\<close> names.
\<close>

theorem content_well_formed:
  assumes "\<not> is_default_subclient self"
    and "map_of (self_subclient_properties self) ''content'' = Some (JList entries)"
    and "\<forall>e \<in> set entries. well_formed e"
  shows "\<exists>self' names.
           content self = Inr (self', Some names) \<and>
           names = map (\<lambda>e. dropWhile (\<lambda>c. c = CHR ''/'') (the (entry_name e))) entries \<and>
           length names = length entries"
proof -
  from assms(3) have all: "filter well_formed entries = entries"
    by (simp add: filter_id_conv)
  from assms(3) have "\<forall>e \<in> set entries. well_formed e \<or> malformed e"
    by simp
  from content_loop_mixed[OF this, of "[]"] all
  have "content_loop entries [] =
          Inr (map (\<lambda>e. dropWhile (\<lambda>c. c = CHR ''/'') (the (entry_name e))) entries)"
    by (simp add: lstrip_slash)
  with content_of_list[OF assms(1,2)] show ?thesis
    by simp
qed

theorem content_well_formed_witness:
  "list_all well_formed example_entries \<and>
   (\<exists>self'. content (example_subclient False [(''content'', JList example_entries)]) =
      Inr (self', Some [''db1'', ''db2'', ''db3'']))"
proof -
  have wf: "\<forall>e \<in> set example_entries. well_formed e"
    by (simp add: example_entries_def well_formed_def)
  have nd: "\<not> is_default_subclient (example_subclient False [(''content'', JList example_entries)])"
    by (simp add: example_subclient_def)
  have c: "map_of (self_subclient_properties
             (example_subclient False [(''content'', JList example_entries)])) ''content'' =
           Some (JList example_entries)"
    by (simp add: example_subclient_def)
  have names: "map (\<lambda>e. dropWhile (\<lambda>c. c = CHR ''/'') (the (entry_name e))) example_entries =
                 [''db1'', ''db2'', ''db3'']"
    by (simp add: example_entries_def)
  from content_well_formed[OF nd c wf] names wf show ?thesis
    by (auto simp: list_all_iff)
qed




text \<open>An iteration with no entry comes from an empty list, mapping or string.\<close>

lemma py_iter_empty:
  "py_iter c = Inr [] \<Longrightarrow> c = JList [] \<or> c = JDict [] \<or> c = JStr []"
  by (cases c) auto

text \<open>
  Claim C10, amended. On the default subclient, and on a subclient whose raw properties
  have no \<^verbatim>\<open>content\<close> key, \<open>content\<close> returns \<^verbatim>\<open>None\<close>, not an empty list. It
  returns the empty list only on a subclient that is not the default one and whose
  \<^verbatim>\<open>content\<close> value is a list with no well-formed entry, or an empty mapping, or an
  empty string.
\<close>

theorem content_absent_or_empty:
  "(is_default_subclient self \<or> map_of (self_subclient_properties self) ''content'' = None \<longrightarrow>
      content self = Inr (self\<lparr>self_content := JNull\<rparr>, None)) \<and>
   (content self = Inr (self', Some []) \<longrightarrow>
      \<not> is_default_subclient self \<and>
      (\<exists>c. map_of (self_subclient_properties self) ''content'' = Some c \<and>
           ((\<exists>entries. c = JList entries \<and> (\<forall>e \<in> set entries. \<not> well_formed e)) \<or>
            c = JDict [] \<or> c = JStr [])))"
proof (intro conjI impI)
  assume "is_default_subclient self \<or> map_of (self_subclient_properties self) ''content'' = None"
  then show "content self = Inr (self\<lparr>self_content := JNull\<rparr>, None)"
    by (rule content_None)
next
  assume r: "content self = Inr (self', Some [])"
  then show "\<not> is_default_subclient self"
    by (auto simp: content_def Let_def split: if_splits)
next
  assume r: "content self = Inr (self', Some [])"
  then obtain c entries where
      c: "map_of (self_subclient_properties self) ''content'' = Some c"
      and i: "py_iter c = Inr entries" and l: "content_loop entries [] = Inr []"
    by (auto simp: content_def Let_def split: if_splits option.splits sum.splits)
  from content_loop_empty_result[OF i l]
  have n: "\<forall>e \<in> set entries. \<not> well_formed e" and s: "c = JList entries \<or> entries = []"
    by blast+
  from s have "(\<exists>entries. c = JList entries \<and> (\<forall>e \<in> set entries. \<not> well_formed e)) \<or>
               c = JDict [] \<or> c = JStr []"
  proof
    assume "c = JList entries"
    with n show ?thesis by blast
  next
    assume "entries = []"
    with i py_iter_empty[of c] show ?thesis by auto
  qed
  with c show "\<exists>c. map_of (self_subclient_properties self) ''content'' = Some c \<and>
           ((\<exists>entries. c = JList entries \<and> (\<forall>e \<in> set entries. \<not> well_formed e)) \<or>
            c = JDict [] \<or> c = JStr [])"
    by blast
qed

theorem content_absent_or_empty_witness:
  "content (example_subclient True [(''content'', JList example_entries)]) =
     Inr ((example_subclient True [(''content'', JList example_entries)])\<lparr>self_content := JNull\<rparr>, None) \<and>
   content (example_subclient False []) = Inr ((example_subclient False [])\<lparr>self_content := JNull\<rparr>, None) \<and>
   content (example_subclient False [(''content'', JList [JDict []])]) =
     Inr ((example_subclient False [(''content'', JList [JDict []])])\<lparr>self_content := JList [JDict []]\<rparr>, Some []) \<and>
   \<not> well_formed (JDict [])"
proof -
  have d: "is_default_subclient (example_subclient True [(''content'', JList example_entries)])"
    by (simp add: example_subclient_def)
  have n: "map_of (self_subclient_properties (example_subclient False [])) ''content'' = None"
    by (simp add: example_subclient_def)
  have e: "content (example_subclient False [(''content'', JList [JDict []])]) =
     Inr ((example_subclient False [(''content'', JList [JDict []])])\<lparr>self_content := JList [JDict []]\<rparr>, Some [])"
    by (simp add: example_subclient_def content_def)
  have p: "map_of (self_subclient_properties (example_subclient False [(''content'', JList [JDict []])])) ''content'' = Some (JList [JDict []])"
    by (simp add: example_subclient_def)
  from content_absent_or_empty[of "example_subclient True [(''content'', JList example_entries)]"] d
  have 1: "content (example_subclient True [(''content'', JList example_entries)]) =
     Inr ((example_subclient True [(''content'', JList example_entries)])\<lparr>self_content := JNull\<rparr>, None)"
    by blast
  from content_absent_or_empty[of "example_subclient False []"] n
  have 2: "content (example_subclient False []) = Inr ((example_subclient False [])\<lparr>self_content := JNull\<rparr>, None)"
    by blast
  from content_absent_or_empty[of "example_subclient False [(''content'', JList [JDict []])]"
      "(example_subclient False [(''content'', JList [JDict []])])\<lparr>self_content := JList [JDict []]\<rparr>"] e p
  have 3: "\<not> well_formed (JDict [])"
    by auto
  from 1 2 e 3 show ?thesis by blast
qed

text \<open>
  Claim C10 as made, with the empty list returned only when a \<^verbatim>\<open>content\<close> list is
  there, fails on a \<^verbatim>\<open>content\<close> that is the empty mapping \<^verbatim>\<open>{}\<close>: the loop runs over
  nothing and the empty list is returned.
\<close>

theorem content_empty_without_list:
  "content (example_subclient False [(''content'', JDict [])]) =
     Inr ((example_subclient False [(''content'', JDict [])])\<lparr>self_content := JDict []\<rparr>, Some [])"
  by (simp add: content_def example_subclient_def)

subsection \<open>Backup\<close>

text \<open>Lower-casing, evaluated on the strings used below.\<close>

lemma lower_examples:
  "lower ''Full'' = ''full''"
  "lower ''full'' = ''full''"
  "lower ''Incremental'' = ''incremental''"
  "lower ''DIFFERENTIAL'' = ''differential''"
  "lower ''transaction'' = ''transaction''"
  "lower ''FSBasedBackupSet'' = ''fsbasedbackupset''"
  "lower ''defaultDumpBackupSet'' = ''defaultdumpbackupset''"
  "lower (''FSBasedBac'' @ [CHR 0xE2, CHR 0x84, CHR 0xAA] @ ''upSet'') = ''fsbasedbackupset''"
  by code_simp+

text \<open>The request builder always calls \<^verbatim>\<open>_backup_json\<close>, and calls nothing else.\<close>

lemma backup_request_json_calls:
  "fst (backup_request_json env level prefix) = [Backup_json level False ''BEFORE_SYNTH'']"
  by (simp add: backup_request_json_def)

text \<open>
  Claim C1. When the lower-cased \<open>backup_level\<close> is one of \<^verbatim>\<open>full\<close>,
  \<^verbatim>\<open>incremental\<close>, \<^verbatim>\<open>differential\<close>, \<open>backup\<close> gets past the validation: it makes
  a first call, to the base class's \<^verbatim>\<open>backup\<close> when there is no prefix and to
  \<^verbatim>\<open>_backup_json\<close> when there is one. For every other string it raises
  \<^verbatim>\<open>SDKException('Subclient', '103')\<close> with no call made at all: no request document
  is built and the transport is not used.
\<close>

theorem backup_validation:
  "(lower backup_level \<in> set [''full'', ''incremental'', ''differential''] \<longrightarrow>
      (\<exists>rest result.
         backup env backup_level backup_prefix =
           ((case backup_prefix of
               None \<Rightarrow> Super_backup (lower backup_level)
             | Some prefix \<Rightarrow> Backup_json (lower backup_level) False ''BEFORE_SYNTH'') # rest,
            result))) \<and>
   (lower backup_level \<notin> set [''full'', ''incremental'', ''differential''] \<longrightarrow>
      backup env backup_level backup_prefix = ([], Inl (SDKException ''Subclient'' ''103'')))"
  by (auto simp: backup_def backup_request_json_def Let_def simp del: update_at.simps
           split: option.splits sum.splits prod.splits)

theorem backup_validation_witness:
  "lower ''Incremental'' \<in> set [''full'', ''incremental'', ''differential''] \<and>
   (\<exists>rest result. backup example_env ''Incremental'' None = (Super_backup ''incremental'' # rest, result)) \<and>
   lower ''DIFFERENTIAL'' \<in> set [''full'', ''incremental'', ''differential''] \<and>
   (\<exists>rest result. backup example_env ''DIFFERENTIAL'' (Some ''nightly'') =
      (Backup_json ''differential'' False ''BEFORE_SYNTH'' # rest, result)) \<and>
   lower ''transaction'' \<notin> set [''full'', ''incremental'', ''differential''] \<and>
   backup example_env ''transaction'' (Some ''nightly'') = ([], Inl (SDKException ''Subclient'' ''103''))"
  using backup_validation[of "''Incremental''" example_env None]
        backup_validation[of "''DIFFERENTIAL''" example_env "Some ''nightly''"]
        backup_validation[of "''transaction''" example_env "Some ''nightly''"]
  by (simp add: lower_examples)

text \<open>
  Claim C6. With a valid level and no prefix, \<open>backup\<close> makes exactly one call, the base
  class's \<^verbatim>\<open>backup\<close> with the lower-cased level as its only argument, and returns
  what that call returns. \<^verbatim>\<open>_backup_json\<close>, which the request builder calls first,
  is not called, and neither is \<^verbatim>\<open>make_request\<close>.
\<close>

theorem backup_without_prefix:
  assumes "lower backup_level \<in> set [''full'', ''incremental'', ''differential'']"
  shows "backup env backup_level None =
           ([Super_backup (lower backup_level)], super_backup env (lower backup_level)) \<and>
         (\<nexists>level flag tag. Backup_json level flag tag \<in> set (fst (backup env backup_level None))) \<and>
         (\<nexists>method url body. Make_request method url body \<in> set (fst (backup env backup_level None)))"
  using assms by (simp add: backup_def Let_def)

theorem backup_without_prefix_witness:
  "lower ''Full'' \<in> set [''full'', ''incremental'', ''differential''] \<and>
   backup example_env ''Full'' None = ([Super_backup ''full''], Inr 1)"
proof -
  have v: "lower ''Full'' \<in> set [''full'', ''incremental'', ''differential'']"
    by (simp add: lower_examples)
  from backup_without_prefix[OF v, of example_env] v show ?thesis
    by (simp add: lower_examples example_env_def)
qed

text \<open>
  The document the request builder returns, on an envelope that has a mapping at
  \<^verbatim>\<open>taskInfo.subTasks[0].options.backupOpts\<close>.
\<close>

lemma dict_set_lookup: "map_of (dict_set d k v) k = Some v"
  by (simp add: dict_set_def update_conv')

lemma hana_options_lookup:
  "map_of (dict_update d (hana_options prefix)) k =
     (if k = ''hanaOptions'' then Some (JDict [(''backupPrefix'', JStr (py_str prefix))])
      else map_of d k)"
  by (simp add: dict_update_def hana_options_def update_conv')

lemma backup_request_json_document:
  assumes "backup_json env level False ''BEFORE_SYNTH'' = Inr (JDict doc)"
    and "map_of doc ''taskInfo'' = Some (JDict task_info)"
    and "map_of task_info ''subTasks'' = Some (JList (JDict sub_task # sub_tasks))"
    and "map_of sub_task ''options'' = Some (JDict options)"
    and "map_of options ''backupOpts'' = Some (JDict backup_opts)"
  shows "backup_request_json env level prefix =
           ([Backup_json level False ''BEFORE_SYNTH''],
            Inr (JDict (dict_set doc ''taskInfo''
              (JDict (dict_set task_info ''subTasks''
                (JList (JDict (dict_set sub_task ''options''
                  (JDict (dict_set options ''backupOpts''
                    (JDict (dict_update backup_opts (hana_options prefix)))))) # sub_tasks)))))))"
  using assms by (simp add: backup_request_json_def)

text \<open>
  Claim C5, amended. With a valid level and a prefix, on an envelope from
  \<^verbatim>\<open>_backup_json\<close> that has a mapping at \<^verbatim>\<open>taskInfo.subTasks[0].options.backupOpts\<close>:
  the envelope is asked for with the lower-cased level, the flag \<^verbatim>\<open>False\<close> and the tag
  \<^verbatim>\<open>BEFORE_SYNTH\<close>; the document then sent with \<^verbatim>\<open>make_request\<close> has, in the
  \<^verbatim>\<open>backupOpts\<close> block at that place, the entry \<^verbatim>\<open>hanaOptions\<close> whose value is the
  mapping with the one entry \<^verbatim>\<open>backupPrefix\<close> equal to the prefix; every other entry of
  \<^verbatim>\<open>backupOpts\<close> is as in the envelope. The witness runs it with the prefix
  \<^verbatim>\<open>nightly\<close>.
\<close>

theorem backup_with_prefix:
  assumes "lower backup_level \<in> set [''full'', ''incremental'', ''differential'']"
    and "backup_json env (lower backup_level) False ''BEFORE_SYNTH'' = Inr (JDict doc)"
    and "map_of doc ''taskInfo'' = Some (JDict task_info)"
    and "map_of task_info ''subTasks'' = Some (JList (JDict sub_task # sub_tasks))"
    and "map_of sub_task ''options'' = Some (JDict options)"
    and "map_of options ''backupOpts'' = Some (JDict backup_opts)"
  shows "\<exists>doc' task_info' sub_task' options' backup_opts' rest result.
           backup env backup_level (Some prefix) =
             (Backup_json (lower backup_level) False ''BEFORE_SYNTH'' #
              Make_request ''POST'' (services_CREATE_TASK env) (JDict doc') # rest, result) \<and>
           map_of doc' ''taskInfo'' = Some (JDict task_info') \<and>
           map_of task_info' ''subTasks'' = Some (JList (JDict sub_task' # sub_tasks)) \<and>
           map_of sub_task' ''options'' = Some (JDict options') \<and>
           map_of options' ''backupOpts'' = Some (JDict backup_opts') \<and>
           map_of backup_opts' ''hanaOptions'' = Some (JDict [(''backupPrefix'', JStr prefix)]) \<and>
           (\<forall>k. k \<noteq> ''hanaOptions'' \<longrightarrow> map_of backup_opts' k = map_of backup_opts k)"
proof -
  let ?backup_opts' = "dict_update backup_opts (hana_options (Some prefix))"
  let ?options' = "dict_set options ''backupOpts'' (JDict ?backup_opts')"
  let ?sub_task' = "dict_set sub_task ''options'' (JDict ?options')"
  let ?task_info' = "dict_set task_info ''subTasks'' (JList (JDict ?sub_task' # sub_tasks))"
  let ?doc' = "dict_set doc ''taskInfo'' (JDict ?task_info')"
  have r: "backup_request_json env (lower backup_level) (Some prefix) =
             ([Backup_json (lower backup_level) False ''BEFORE_SYNTH''], Inr (JDict ?doc'))"
    by (rule backup_request_json_document[OF assms(2-6)])
  have b: "\<exists>rest result.
          backup env backup_level (Some prefix) =
            (Backup_json (lower backup_level) False ''BEFORE_SYNTH'' #
             Make_request ''POST'' (services_CREATE_TASK env) (JDict ?doc') # rest, result)"
    using assms(1) r
    by (auto simp: backup_def Let_def split: sum.splits prod.splits)
  have h: "map_of ?backup_opts' ''hanaOptions'' = Some (JDict [(''backupPrefix'', JStr prefix)])"
    by (simp add: hana_options_lookup)
  have o: "\<forall>k. k \<noteq> ''hanaOptions'' \<longrightarrow> map_of ?backup_opts' k = map_of backup_opts k"
    by (simp add: hana_options_lookup)
  from b h o dict_set_lookup[of doc "''taskInfo''"] dict_set_lookup[of task_info "''subTasks''"]
       dict_set_lookup[of sub_task "''options''"] dict_set_lookup[of options "''backupOpts''"]
  show ?thesis by blast
qed

theorem backup_with_prefix_witness:
  "lower ''full'' \<in> set [''full'', ''incremental'', ''differential''] \<and>
   (\<exists>doc' task_info' sub_task' options' backup_opts' rest result.
      backup example_env ''full'' (Some ''nightly'') =
        (Backup_json ''full'' False ''BEFORE_SYNTH'' #
         Make_request ''POST'' ''/CreateTask'' (JDict doc') # rest, result) \<and>
      map_of doc' ''taskInfo'' = Some (JDict task_info') \<and>
      map_of task_info' ''subTasks'' = Some (JList [JDict sub_task']) \<and>
      map_of sub_task' ''options'' = Some (JDict options') \<and>
      map_of options' ''backupOpts'' = Some (JDict backup_opts') \<and>
      map_of backup_opts' ''hanaOptions'' = Some (JDict [(''backupPrefix'', JStr ''nightly'')]) \<and>
      (\<forall>k. k \<noteq> ''hanaOptions'' \<longrightarrow>
         map_of backup_opts' k =
           map_of [(''backupLevel'', JStr ''full''), (''incLevel'', JStr ''BEFORE_SYNTH''),
                   (''runIncrementalBackup'', JBool False)] k))"
proof -
  have v: "lower ''full'' \<in> set [''full'', ''incremental'', ''differential'']"
    by (simp add: lower_examples)
  have e: "backup_json example_env (lower ''full'') False ''BEFORE_SYNTH'' =
             Inr (JDict [(''taskInfo'',
               JDict [(''associations'', JList [JDict [(''subclientName'', JStr ''sc1'')]]),
                      (''subTasks'',
                         JList [JDict [(''subTaskOperation'', JInt 1),
                                       (''options'',
                                          JDict [(''backupOpts'',
                                             JDict [(''backupLevel'', JStr ''full''),
                                                    (''incLevel'', JStr ''BEFORE_SYNTH''),
                                                    (''runIncrementalBackup'', JBool False)])])]])])])"
    by (simp add: example_env_def example_backup_json_def lower_examples)
  have c: "services_CREATE_TASK example_env = ''/CreateTask''"
    by (simp add: example_env_def)
  have t1: "map_of [(''taskInfo'',
               JDict [(''associations'', JList [JDict [(''subclientName'', JStr ''sc1'')]]),
                      (''subTasks'',
                         JList [JDict [(''subTaskOperation'', JInt 1),
                                       (''options'',
                                          JDict [(''backupOpts'',
                                             JDict [(''backupLevel'', JStr ''full''),
                                                    (''incLevel'', JStr ''BEFORE_SYNTH''),
                                                    (''runIncrementalBackup'', JBool False)])])]])])]
              ''taskInfo'' =
            Some (JDict [(''associations'', JList [JDict [(''subclientName'', JStr ''sc1'')]]),
                      (''subTasks'',
                         JList [JDict [(''subTaskOperation'', JInt 1),
                                       (''options'',
                                          JDict [(''backupOpts'',
                                             JDict [(''backupLevel'', JStr ''full''),
                                                    (''incLevel'', JStr ''BEFORE_SYNTH''),
                                                    (''runIncrementalBackup'', JBool False)])])]])])"
    by simp
  have t2: "map_of [(''associations'', JList [JDict [(''subclientName'', JStr ''sc1'')]]),
                      (''subTasks'',
                         JList [JDict [(''subTaskOperation'', JInt 1),
                                       (''options'',
                                          JDict [(''backupOpts'',
                                             JDict [(''backupLevel'', JStr ''full''),
                                                    (''incLevel'', JStr ''BEFORE_SYNTH''),
                                                    (''runIncrementalBackup'', JBool False)])])]])]
              ''subTasks'' =
            Some (JList (JDict [(''subTaskOperation'', JInt 1),
                                       (''options'',
                                          JDict [(''backupOpts'',
                                             JDict [(''backupLevel'', JStr ''full''),
                                                    (''incLevel'', JStr ''BEFORE_SYNTH''),
                                                    (''runIncrementalBackup'', JBool False)])])] # []))"
    by simp
  have t3: "map_of [(''subTaskOperation'', JInt 1),
                                       (''options'',
                                          JDict [(''backupOpts'',
                                             JDict [(''backupLevel'', JStr ''full''),
                                                    (''incLevel'', JStr ''BEFORE_SYNTH''),
                                                    (''runIncrementalBackup'', JBool False)])])]
              ''options'' =
            Some (JDict [(''backupOpts'',
                                             JDict [(''backupLevel'', JStr ''full''),
                                                    (''incLevel'', JStr ''BEFORE_SYNTH''),
                                                    (''runIncrementalBackup'', JBool False)])])"
    by simp
  have t4: "map_of [(''backupOpts'',
                                             JDict [(''backupLevel'', JStr ''full''),
                                                    (''incLevel'', JStr ''BEFORE_SYNTH''),
                                                    (''runIncrementalBackup'', JBool False)])]
              ''backupOpts'' =
            Some (JDict [(''backupLevel'', JStr ''full''),
                                                    (''incLevel'', JStr ''BEFORE_SYNTH''),
                                                    (''runIncrementalBackup'', JBool False)])"
    by simp
  note r = backup_with_prefix[OF v e t1 t2 t3 t4, of "''nightly''", unfolded lower_examples c]
  from v r show ?thesis by (rule conjI)
qed

text \<open>
  Claim C5 as made, with \<^verbatim>\<open>backupPrefix\<close> an entry of the \<^verbatim>\<open>backupOpts\<close> block itself,
  fails: on the example envelope the block sent has the keys \<^verbatim>\<open>backupLevel\<close>,
  \<^verbatim>\<open>incLevel\<close>, \<^verbatim>\<open>runIncrementalBackup\<close> and \<^verbatim>\<open>hanaOptions\<close>, and no key
  \<^verbatim>\<open>backupPrefix\<close>.
\<close>

theorem backup_prefix_not_direct_entry:
  "backup example_env ''full'' (Some ''nightly'') =
     ([Backup_json ''full'' False ''BEFORE_SYNTH'',
       Make_request ''POST'' ''/CreateTask''
         (JDict [(''taskInfo'',
            JDict [(''associations'', JList [JDict [(''subclientName'', JStr ''sc1'')]]),
                   (''subTasks'',
                      JList [JDict [(''subTaskOperation'', JInt 1),
                                    (''options'',
                                       JDict [(''backupOpts'',
                                          JDict [(''backupLevel'', JStr ''full''),
                                                 (''incLevel'', JStr ''BEFORE_SYNTH''),
                                                 (''runIncrementalBackup'', JBool False),
                                                 (''hanaOptions'',
                                                    JDict [(''backupPrefix'', JStr ''nightly'')])])])]])])]),
       Process_backup_response True ''response''],
      Inr 2) \<and>
   map_of [(''backupLevel'', JStr ''full''),
           (''incLevel'', JStr ''BEFORE_SYNTH''),
           (''runIncrementalBackup'', JBool False),
           (''hanaOptions'', JDict [(''backupPrefix'', JStr ''nightly'')])] ''backupPrefix'' = None"
  by (simp add: backup_def backup_request_json_def example_env_def example_backup_json_def
        lower_examples dict_set_def dict_update_def hana_options_def Let_def)

subsection \<open>Restore\<close>

text \<open>The method with its local variables unfolded.\<close>

lemma restore_postgres_server_eq:
  "restore_postgres_server restore_in_place self database_list dest_client_name
       dest_instance_name copy_precedence from_time to_time clone_env clone_options =
     (let instance = instance_object (backupset_object self);
          fs_based = (lower (backupset_name (backupset_object self)) = ''fsbasedbackupset'');
          instance' = instance\<lparr>restore_association := self_subClientEntity self\<rparr>;
          args = \<lparr>arg_database_list = (if fs_based then Some [''/data''] else database_list),
                   arg_dest_client_name =
                     (case dest_client_name of
                        None \<Rightarrow> client_name (client_object (agent_object instance))
                      | Some n \<Rightarrow> n),
                   arg_dest_instance_name =
                     (case dest_instance_name of None \<Rightarrow> instance_name instance | Some n \<Rightarrow> n),
                   arg_backupset_name = backupset_name (backupset_object self),
                   arg_backupset_flag = fs_based,
                   arg_copy_precedence = copy_precedence,
                   arg_from_time = from_time,
                   arg_to_time = to_time,
                   arg_clone_env = clone_env,
                   arg_clone_options = clone_options\<rparr>
      in (self\<lparr>backupset_object := (backupset_object self)\<lparr>instance_object := instance'\<rparr>\<rparr>,
          [Restore_in_place instance' args],
          restore_in_place instance' args))"
  by (simp add: restore_postgres_server_def Let_def)

text \<open>
  Claim C3. \<open>restore_postgres_server\<close> makes one call of \<^verbatim>\<open>restore_in_place\<close>. When
  the lower-cased name of the backupset is \<^verbatim>\<open>fsbasedbackupset\<close>, the database list of
  that call is \<^verbatim>\<open>["/data"]\<close> whatever the caller gave, and the backupset flag is
  \<^verbatim>\<open>True\<close>; otherwise the database list is the caller's and the flag is \<^verbatim>\<open>False\<close>.
  The witness runs a name in mixed case, the same name with the Kelvin sign for its
  \<open>K\<close>, and the name of another backupset.
\<close>

theorem restore_backupset_type:
  "\<exists>self' instance args.
     restore_postgres_server restore_in_place self database_list dest_client_name
       dest_instance_name copy_precedence from_time to_time clone_env clone_options =
       (self', [Restore_in_place instance args], restore_in_place instance args) \<and>
     (if lower (backupset_name (backupset_object self)) = ''fsbasedbackupset''
      then arg_database_list args = Some [''/data''] \<and> arg_backupset_flag args = True
      else arg_database_list args = database_list \<and> arg_backupset_flag args = False)"
  by (simp add: restore_postgres_server_eq Let_def)

theorem restore_backupset_type_witness:
  "(\<exists>self' instance args.
     restore_postgres_server example_restore_in_place example_fs_subclient (Some [''mydb''])
       None None None None None False JNull =
       (self', [Restore_in_place instance args], 7) \<and>
     arg_database_list args = Some [''/data''] \<and> arg_backupset_flag args = True) \<and>
   (\<exists>self' instance args.
     restore_postgres_server example_restore_in_place example_kelvin_subclient (Some [''mydb''])
       None None None None None False JNull =
       (self', [Restore_in_place instance args], 7) \<and>
     arg_database_list args = Some [''/data''] \<and> arg_backupset_flag args = True) \<and>
   (\<exists>self' instance args.
     restore_postgres_server example_restore_in_place (example_subclient False []) (Some [''mydb''])
       None None None None None False JNull =
       (self', [Restore_in_place instance args], 7) \<and>
     arg_database_list args = Some [''mydb''] \<and> arg_backupset_flag args = False)"
proof -
  have fs: "lower (backupset_name (backupset_object example_fs_subclient)) = ''fsbasedbackupset''"
    by (simp add: example_fs_subclient_def lower_examples)
  have kelvin:
    "lower (backupset_name (backupset_object example_kelvin_subclient)) = ''fsbasedbackupset''"
    by (simp add: example_kelvin_subclient_def lower_examples del: append.simps)
  have dump: "lower (backupset_name (backupset_object (example_subclient False []))) \<noteq>
                ''fsbasedbackupset''"
    by (simp add: example_subclient_def lower_examples)
  from restore_backupset_type[of example_restore_in_place example_fs_subclient "Some [''mydb'']"
         None None None None None False JNull]
       restore_backupset_type[of example_restore_in_place example_kelvin_subclient "Some [''mydb'']"
         None None None None None False JNull]
       restore_backupset_type[of example_restore_in_place "example_subclient False []"
         "Some [''mydb'']" None None None None None False JNull]
       fs kelvin dump
  show ?thesis
    by (simp add: example_restore_in_place_def)
qed

text \<open>
  Claim C4. The destination client name passed to \<^verbatim>\<open>restore_in_place\<close> is the
  caller's when given, else the name of the client that owns the instance; the
  destination instance name is the caller's when given, else the name of the instance.
\<close>

theorem restore_destination_defaults:
  "\<exists>self' instance args.
     restore_postgres_server restore_in_place self database_list dest_client_name
       dest_instance_name copy_precedence from_time to_time clone_env clone_options =
       (self', [Restore_in_place instance args], restore_in_place instance args) \<and>
     arg_dest_client_name args =
       (case dest_client_name of
          None \<Rightarrow> client_name (client_object (agent_object (instance_object (backupset_object self))))
        | Some name \<Rightarrow> name) \<and>
     arg_dest_instance_name args =
       (case dest_instance_name of
          None \<Rightarrow> instance_name (instance_object (backupset_object self))
        | Some name \<Rightarrow> name)"
  by (simp add: restore_postgres_server_eq Let_def)

theorem restore_destination_defaults_witness:
  "(\<exists>self' instance args.
     restore_postgres_server example_restore_in_place (example_subclient False []) None
       None None None None None False JNull =
       (self', [Restore_in_place instance args], 7) \<and>
     arg_dest_client_name args = ''client1'' \<and> arg_dest_instance_name args = ''pg1'') \<and>
   (\<exists>self' instance args.
     restore_postgres_server example_restore_in_place (example_subclient False []) None
       (Some ''client2'') (Some ''pg2'') None None None False JNull =
       (self', [Restore_in_place instance args], 7) \<and>
     arg_dest_client_name args = ''client2'' \<and> arg_dest_instance_name args = ''pg2'')"
  using restore_destination_defaults[of example_restore_in_place "example_subclient False []" None
          None None None None None False JNull]
        restore_destination_defaults[of example_restore_in_place "example_subclient False []" None
          "Some ''client2''" "Some ''pg2''" None None None False JNull]
  by (simp add: example_restore_in_place_def example_subclient_def example_instance_def
                example_client_def)

text \<open>
  Claim C9. On every call, whatever the arguments, the instance object that receives
  \<^verbatim>\<open>restore_in_place\<close> already has \<^verbatim>\<open>_restore_association\<close> set to the subclient's
  \<^verbatim>\<open>_subClientEntity\<close>, and the subclient's instance object keeps that value
  afterwards; nothing else of the subclient or of the instance changes.
\<close>

theorem restore_sets_association:
  "\<exists>self' instance args.
     restore_postgres_server restore_in_place self database_list dest_client_name
       dest_instance_name copy_precedence from_time to_time clone_env clone_options =
       (self', [Restore_in_place instance args], restore_in_place instance args) \<and>
     instance = (instance_object (backupset_object self))
                  \<lparr>restore_association := self_subClientEntity self\<rparr> \<and>
     restore_association instance = self_subClientEntity self \<and>
     instance_object (backupset_object self') = instance \<and>
     self' = self\<lparr>backupset_object := (backupset_object self)\<lparr>instance_object := instance\<rparr>\<rparr>"
  by (simp add: restore_postgres_server_eq Let_def)

theorem restore_sets_association_witness:
  "\<exists>self' instance args.
     restore_postgres_server example_restore_in_place (example_subclient False []) None
       None None None None None False JNull =
       (self', [Restore_in_place instance args], 7) \<and>
     restore_association instance = JDict [(''subclientName'', JStr ''sc1'')] \<and>
     restore_association (instance_object (backupset_object self')) =
       JDict [(''subclientName'', JStr ''sc1'')] \<and>
     restore_association (instance_object (backupset_object (example_subclient False []))) = JNull"
proof -
  let ?s = "example_subclient False []"
  from restore_sets_association[of example_restore_in_place ?s None
          None None None None None False JNull]
  obtain self' inst args where
      r: "restore_postgres_server example_restore_in_place ?s None
            None None None None None False JNull =
            (self', [Restore_in_place inst args], example_restore_in_place inst args)"
      and i: "restore_association inst = self_subClientEntity ?s"
      and s: "instance_object (backupset_object self') = inst"
    by blast
  have e: "self_subClientEntity ?s = JDict [(''subclientName'', JStr ''sc1'')]"
    by (simp add: example_subclient_def)
  have old: "restore_association (instance_object (backupset_object ?s)) = JNull"
    by (simp add: example_subclient_def example_instance_def)
  have j: "example_restore_in_place inst args = 7"
    by (simp add: example_restore_in_place_def)
  from r i s e old j show ?thesis
    by auto
qed

subsection \<open>Refreshing the properties\<close>

text \<open>Setting a key that is not there yet appends it.\<close>

lemma update_new_key:
  "k \<notin> fst ` set al \<Longrightarrow> AList.update k v al = al @ [(k, v)]"
  by (induction al) auto

text \<open>An error of the base class's fetch goes through unchanged.\<close>

lemma get_subclient_properties_raises:
  "super_get self = Inl e \<Longrightarrow> get_subclient_properties super_get self = Inl e"
  by (simp add: get_subclient_properties_def)

text \<open>
  Claim C8. When the base class's fetch returns, \<open>get_subclient_properties\<close> returns
  too, the properties have the key \<^verbatim>\<open>postgreSQLSubclientProp\<close>, and
  \<^verbatim>\<open>_postgres_properties\<close> is the value under it. When the fetched properties lack the
  key it is added with an empty mapping; when they have it they are left as fetched.
\<close>

theorem refresh_ensures_postgres_key:
  assumes "super_get self = Inr self1"
  shows "\<exists>self'.
           get_subclient_properties super_get self = Inr self' \<and>
           map_of (self_subclient_properties self') ''postgreSQLSubclientProp'' =
             Some (self_postgres_properties self') \<and>
           (if map_of (self_subclient_properties self1) ''postgreSQLSubclientProp'' = None
            then self_postgres_properties self' = JDict [] \<and>
                 self_subclient_properties self' =
                   self_subclient_properties self1 @ [(''postgreSQLSubclientProp'', JDict [])]
            else self_subclient_properties self' = self_subclient_properties self1)"
proof (cases "map_of (self_subclient_properties self1) ''postgreSQLSubclientProp''")
  case None
  then have "''postgreSQLSubclientProp'' \<notin> fst ` set (self_subclient_properties self1)"
    by (simp add: map_of_eq_None_iff)
  then have "AList.update ''postgreSQLSubclientProp'' (JDict []) (self_subclient_properties self1) =
               self_subclient_properties self1 @ [(''postgreSQLSubclientProp'', JDict [])]"
    by (rule update_new_key)
  with assms None show ?thesis
    by (simp add: get_subclient_properties_def dict_set_def Let_def map_add_def)
next
  case (Some v)
  with assms show ?thesis
    by (simp add: get_subclient_properties_def Let_def)
qed

theorem refresh_ensures_postgres_key_witness:
  "(\<exists>self'.
      get_subclient_properties (example_super_get [(''content'', JList [])])
        (example_subclient False []) = Inr self' \<and>
      self_subclient_properties self' =
        [(''content'', JList []), (''postgreSQLSubclientProp'', JDict [])] \<and>
      self_postgres_properties self' = JDict []) \<and>
   (\<exists>self'.
      get_subclient_properties
        (example_super_get [(''postgreSQLSubclientProp'', JDict [(''collectObjectListDuringBackup'', JBool True)])])
        (example_subclient False []) = Inr self' \<and>
      self_subclient_properties self' =
        [(''postgreSQLSubclientProp'', JDict [(''collectObjectListDuringBackup'', JBool True)])] \<and>
      self_postgres_properties self' = JDict [(''collectObjectListDuringBackup'', JBool True)])"
proof -
  let ?p1 = "[(''content'', JList [])]"
  let ?p2 = "[(''postgreSQLSubclientProp'', JDict [(''collectObjectListDuringBackup'', JBool True)])]"
  let ?s = "example_subclient False []"
  have 1: "example_super_get ?p1 ?s = Inr (?s\<lparr>self_subclient_properties := ?p1\<rparr>)"
    by (simp add: example_super_get_def)
  have 2: "example_super_get ?p2 ?s = Inr (?s\<lparr>self_subclient_properties := ?p2\<rparr>)"
    by (simp add: example_super_get_def)
  from refresh_ensures_postgres_key[of "example_super_get ?p1" ?s, OF 1]
       refresh_ensures_postgres_key[of "example_super_get ?p2" ?s, OF 2]
  show ?thesis
    by auto
qed

end
